theory Spec2Isabelle
  imports Main "HOL-Library.Sublist"
begin

section \<open>Values and text\<close>

text \<open>
  The program is \<^verbatim>\<open>src/main.py\<close>: a list of \<^verbatim>\<open>Template\<close> objects kept by
  \<^verbatim>\<open>TemplaterApp\<close>, written to and read from \<^verbatim>\<open>templates.json\<close>, shown in a
  listbox, and changed through a modal text dialog.

  A Python \<^verbatim>\<open>str\<close> is modelled as a \<^typ>\<open>string\<close> whose characters are code points;
  the model covers text with code points below 256, where \<^verbatim>\<open>str.lower\<close> and
  \<^verbatim>\<open>str.isspace\<close> are the character-wise functions written out below.

  \<open>json\<close> is the type of the values \<^verbatim>\<open>json.load\<close> returns: \<^verbatim>\<open>None\<close>, a bool, an
  int, a float (kept by its literal; the program never computes with one), a str, a
  list, or a dict. A dict is kept as the list of its items in insertion order; its keys
  are strings and lookups go through \<^const>\<open>map_of\<close>.
\<close>

datatype json =
    JNull
  | JBool bool
  | JInt int
  | JFloat string
  | JStr string
  | JArr "json list"
  | JObj "(string \<times> json) list"

text \<open>The exceptions the program can meet.\<close>

datatype error =
    FileNotFoundError
  | UnicodeDecodeError
  | JSONDecodeError
  | RecursionError
  | ValueError
  | KeyError
  | TypeError
  | IndexError
  | AttributeError

text \<open>\<^verbatim>\<open>str.isspace\<close> on one code point below 256, and \<^verbatim>\<open>str.strip()\<close>.\<close>

definition isspace :: "char \<Rightarrow> bool" where
  "isspace c =
     (let n = (of_char c :: nat)
      in (9 \<le> n \<and> n \<le> 13) \<or> (28 \<le> n \<and> n \<le> 32) \<or> n = 133 \<or> n = 160)"

definition strip :: "string \<Rightarrow> string" where
  "strip s = rev (dropWhile isspace (rev (dropWhile isspace s)))"

text \<open>\<^verbatim>\<open>str.lower()\<close> on code points below 256: the letters A to Z, and the
  capital letters of the range 192 to 222 (215 is the multiplication sign), move up by 32.\<close>

definition lower_char :: "char \<Rightarrow> char" where
  "lower_char c =
     (let n = (of_char c :: nat)
      in if (65 \<le> n \<and> n \<le> 90) \<or> (192 \<le> n \<and> n \<le> 222 \<and> n \<noteq> 215)
         then char_of (n + 32) else c)"

definition lower :: "string \<Rightarrow> string" where
  "lower s = map lower_char s"

text \<open>\<^verbatim>\<open>needle in hay\<close> on two strings: \<open>needle\<close> occurs in \<open>hay\<close> as a contiguous run.\<close>

fun str_in :: "string \<Rightarrow> string \<Rightarrow> bool" where
  "str_in needle [] = (needle = [])"
| "str_in needle (c # cs) = (prefix needle (c # cs) \<or> str_in needle cs)"

text \<open>\<^verbatim>\<open>str(n)\<close> for a length \<open>n\<close>, as the f-strings of the log messages print it.\<close>

fun str_nat :: "nat \<Rightarrow> string" where
  "str_nat n =
     (if n < 10 then [char_of (48 + n)]
      else str_nat (n div 10) @ [char_of (48 + n mod 10)])"

declare str_nat.simps [simp del]

text \<open>\<^verbatim>\<open>xs[index]\<close> on a list: a negative index counts from the end, and an index
  outside the list raises \<^verbatim>\<open>IndexError\<close>. The result is the position addressed.\<close>

definition getitem :: "'a list \<Rightarrow> int \<Rightarrow> error + nat" where
  "getitem xs index =
     (let n = int (length xs);
          j = (if index < 0 then index + n else index)
      in if 0 \<le> j \<and> j < n then Inr (nat j) else Inl IndexError)"


section \<open>Template and its codec\<close>

record Template =
  description :: json

text \<open>\<^verbatim>\<open>Template.to_dict\<close> and \<^verbatim>\<open>Template.from_dict\<close>. \<^verbatim>\<open>data["description"]\<close> raises
  \<^verbatim>\<open>KeyError\<close> on a dict without the key and \<^verbatim>\<open>TypeError\<close> on every value that is
  not a dict (a list and a str take integer indices only; the others have no subscript).
  The value found is stored as it is.\<close>

definition to_dict :: "Template \<Rightarrow> json" where
  "to_dict t = JObj [(''description'', description t)]"

fun subscript :: "json \<Rightarrow> string \<Rightarrow> error + json" where
  "subscript (JObj items) key =
     (case map_of items key of None \<Rightarrow> Inl KeyError | Some v \<Rightarrow> Inr v)"
| "subscript _ key = Inl TypeError"

definition from_dict :: "json \<Rightarrow> error + Template" where
  "from_dict data =
     (case subscript data ''description'' of
        Inl e \<Rightarrow> Inl e
      | Inr v \<Rightarrow> Inr \<lparr>description = v\<rparr>)"


section \<open>The dialog\<close>

text \<open>\<^verbatim>\<open>TemplateInputDialog\<close> is modelled by how it ends: \<open>None\<close> when the user cancels
  (\<^verbatim>\<open>result\<close> keeps the \<^verbatim>\<open>None\<close> the base class gave it), \<open>Some content\<close> when the user
  confirms with \<open>content\<close> in the text widget, and then \<^verbatim>\<open>apply\<close> strips it.\<close>

definition dialog_apply :: "string \<Rightarrow> string" where
  "dialog_apply content = strip content"

definition TemplateInputDialog :: "string option \<Rightarrow> string option" where
  "TemplateInputDialog outcome = map_option dialog_apply outcome"


section \<open>The application state\<close>

text \<open>
  The backing file is modelled by what \<^verbatim>\<open>open\<close> and \<^verbatim>\<open>json.load\<close> make of its
  content. The file is missing (\<open>None\<close>), or it holds
  \<^item> bytes that the text encoding of \<^verbatim>\<open>open(file_path, "r")\<close> does not decode, such as
    the byte 0x81 under cp1252 or the bytes FF FE under UTF-8 (\<open>Undecodable\<close>);
  \<^item> text that is not JSON (\<open>NotJson\<close>);
  \<^item> JSON nested deeper than the interpreter's recursion limit (\<open>TooDeep\<close>);
  \<^item> JSON with an integer literal longer than the interpreter's limit on the digits
    of an int (\<open>TooLong\<close>);
  \<^item> JSON that \<^verbatim>\<open>json.load\<close> turns into a value (\<open>Json\<close>).
  \<^verbatim>\<open>json.dump\<close> of a value leaves a file that loads as that value. Failures of the
  file system other than a missing file (permissions, a full disk) are outside the
  model.

  The log keeps each message with its level; a message built as
  \<^verbatim>\<open>f"...{str(e)}"\<close> is kept as its prefix and the exception. Every message is also
  printed to standard output, which the model does not keep apart from the log.
\<close>

datatype stored =
    Undecodable
  | NotJson
  | TooDeep
  | TooLong
  | Json json

datatype level = DEBUG | WARNING | ERROR

datatype message = Text string | WithExc string error

record TemplaterApp =
  templates :: "Template list"
  templates_json :: "stored option"
  template_listbox :: "string list"
  templater_log :: "(level \<times> message) list"
  messagebox :: "message list"

definition logging :: "level \<Rightarrow> message \<Rightarrow> TemplaterApp \<Rightarrow> TemplaterApp" where
  "logging lv m app = app\<lparr>templater_log := templater_log app @ [(lv, m)]\<rparr>"

definition showerror :: "message \<Rightarrow> TemplaterApp \<Rightarrow> TemplaterApp" where
  "showerror m app = app\<lparr>messagebox := messagebox app @ [m]\<rparr>"


section \<open>Loading and saving\<close>

text \<open>\<^verbatim>\<open>open(file_path, "r")\<close> followed by \<^verbatim>\<open>json.load(f)\<close>. \<^verbatim>\<open>open\<close> raises
  \<^verbatim>\<open>FileNotFoundError\<close> on a missing file. \<^verbatim>\<open>json.load\<close> reads the whole file first, so
  bytes that do not decode raise \<^verbatim>\<open>UnicodeDecodeError\<close> before any parsing; then text
  that is not JSON raises \<^verbatim>\<open>JSONDecodeError\<close>, nesting beyond the recursion limit
  raises \<^verbatim>\<open>RecursionError\<close>, and an integer literal beyond the digit limit raises
  \<^verbatim>\<open>ValueError\<close>. \<^verbatim>\<open>JSONDecodeError\<close> is a subclass of \<^verbatim>\<open>ValueError\<close>, and
  \<^verbatim>\<open>UnicodeDecodeError\<close> is another one: neither of the two is the other.\<close>

definition json_load :: "stored option \<Rightarrow> error + json" where
  "json_load f =
     (case f of
        None \<Rightarrow> Inl FileNotFoundError
      | Some Undecodable \<Rightarrow> Inl UnicodeDecodeError
      | Some NotJson \<Rightarrow> Inl JSONDecodeError
      | Some TooDeep \<Rightarrow> Inl RecursionError
      | Some TooLong \<Rightarrow> Inl ValueError
      | Some (Json v) \<Rightarrow> Inr v)"

text \<open>\<^verbatim>\<open>for t in data\<close>: a list gives its elements, a dict its keys, a str its
  characters as one-character strings; nothing else is iterable.\<close>

fun iter :: "json \<Rightarrow> error + json list" where
  "iter (JArr xs) = Inr xs"
| "iter (JObj items) = Inr (map (\<lambda>kv. JStr (fst kv)) items)"
| "iter (JStr s) = Inr (map (\<lambda>c. JStr [c]) s)"
| "iter _ = Inl TypeError"

text \<open>The comprehension \<^verbatim>\<open>[Template.from_dict(t) for t in data]\<close>: left to right, and
  the first exception ends it.\<close>

fun from_dict_all :: "json list \<Rightarrow> error + Template list" where
  "from_dict_all [] = Inr []"
| "from_dict_all (t # rest) =
     (case from_dict t of
        Inl e \<Rightarrow> Inl e
      | Inr x \<Rightarrow>
          (case from_dict_all rest of
             Inl e \<Rightarrow> Inl e
           | Inr xs \<Rightarrow> Inr (x # xs)))"

definition read_templates :: "stored option \<Rightarrow> error + Template list" where
  "read_templates f =
     (case json_load f of
        Inl e \<Rightarrow> Inl e
      | Inr data \<Rightarrow>
          (case iter data of
             Inl e \<Rightarrow> Inl e
           | Inr ts \<Rightarrow> from_dict_all ts))"

text \<open>\<^verbatim>\<open>TemplaterApp.load_templates\<close>. The first component of the result is the
  exception that leaves the method, if any; only \<^verbatim>\<open>FileNotFoundError\<close> and
  \<^verbatim>\<open>JSONDecodeError\<close> have a handler, and an \<^verbatim>\<open>except\<close> clause catches the class it
  names and its subclasses, so every other exception leaves the method with the
  collection as it was.\<close>

definition load_templates :: "TemplaterApp \<Rightarrow> error option \<times> TemplaterApp" where
  "load_templates app =
     (let app1 = logging DEBUG (Text ''Loading templates'') app
      in case read_templates (templates_json app1) of
           Inr ts \<Rightarrow>
             (None,
              logging DEBUG (Text (''Loaded '' @ str_nat (length ts) @ '' templates''))
                (app1\<lparr>templates := ts\<rparr>))
         | Inl FileNotFoundError \<Rightarrow>
             (None,
              (logging WARNING (Text ''templates.json not found, starting with empty list'') app1)
                \<lparr>templates := []\<rparr>)
         | Inl JSONDecodeError \<Rightarrow>
             (None,
              (logging ERROR (Text ''Error decoding templates.json, starting with empty list'') app1)
                \<lparr>templates := []\<rparr>)
         | Inl e \<Rightarrow> (Some e, app1))"

text \<open>\<^verbatim>\<open>TemplaterApp.save_templates\<close>: the whole list, in its order, replaces the file.\<close>

definition save_templates :: "TemplaterApp \<Rightarrow> TemplaterApp" where
  "save_templates app =
     (let app1 = logging DEBUG (Text ''Saving templates'') app;
          app2 = app1\<lparr>templates_json := Some (Json (JArr (map to_dict (templates app1))))\<rparr>
      in logging DEBUG
           (Text (''Saved '' @ str_nat (length (templates app2)) @ '' templates'')) app2)"


section \<open>The listbox\<close>

text \<open>The condition of the loop in \<^verbatim>\<open>update_template_list\<close>:
  \<^verbatim>\<open>query is None or query.lower() in template.description.lower()\<close>. Only a str has
  \<^verbatim>\<open>lower\<close>.\<close>

fun selects :: "string option \<Rightarrow> Template \<Rightarrow> error + bool" where
  "selects None t = Inr True"
| "selects (Some query) t =
     (case description t of
        JStr d \<Rightarrow> Inr (str_in (lower query) (lower d))
      | _ \<Rightarrow> Inl AttributeError)"

text \<open>The row inserted: \<^verbatim>\<open>template.description[:50] + "..."\<close>. A value that is not a
  str raises: \<^verbatim>\<open>TypeError\<close> for a list (list plus str) and for the values without a
  subscript, and for a dict (\<^verbatim>\<open>TypeError\<close> up to Python 3.11, where a slice cannot be
  a key; from 3.12 the same line raises \<^verbatim>\<open>KeyError\<close>).\<close>

fun row :: "Template \<Rightarrow> error + string" where
  "row t =
     (case description t of
        JStr d \<Rightarrow> Inr (take 50 d @ ''...'')
      | _ \<Rightarrow> Inl TypeError)"

text \<open>The loop over \<^verbatim>\<open>self.templates\<close>; the rows inserted before an exception stay.\<close>

fun insert_rows :: "string option \<Rightarrow> Template list \<Rightarrow> string list \<Rightarrow> error option \<times> string list" where
  "insert_rows query [] box = (None, box)"
| "insert_rows query (t # ts) box =
     (case selects query t of
        Inl e \<Rightarrow> (Some e, box)
      | Inr False \<Rightarrow> insert_rows query ts box
      | Inr True \<Rightarrow>
          (case row t of
             Inl e \<Rightarrow> (Some e, box)
           | Inr r \<Rightarrow> insert_rows query ts (box @ [r])))"

definition update_template_list :: "string option \<Rightarrow> TemplaterApp \<Rightarrow> error option \<times> TemplaterApp" where
  "update_template_list query app =
     (let app1 = logging DEBUG (Text ''Updating template list'') app;
          res = insert_rows query (templates app1) [];
          app2 = app1\<lparr>template_listbox := snd res\<rparr>
      in case fst res of
           Some e \<Rightarrow> (Some e, app2)
         | None \<Rightarrow>
             (None,
              logging DEBUG
                (Text (''Added '' @ str_nat (length (template_listbox app2))
                         @ '' templates to the listbox'')) app2))"


section \<open>Creating and editing\<close>

text \<open>\<^verbatim>\<open>TemplaterApp.create_template\<close>. Its \<^verbatim>\<open>except Exception\<close> handler logs the
  exception and shows it in a message box; nothing leaves the method.\<close>

definition create_template :: "string option \<Rightarrow> TemplaterApp \<Rightarrow> TemplaterApp" where
  "create_template outcome app =
     (let app1 = logging DEBUG (Text ''Creating new template'') app
      in case TemplateInputDialog outcome of
           None \<Rightarrow> app1
         | Some result \<Rightarrow>
             if result = [] then app1
             else
               (let app2 = app1\<lparr>templates := templates app1 @ [\<lparr>description = JStr result\<rparr>]\<rparr>;
                    app3 = save_templates app2;
                    res = update_template_list None app3
                in case fst res of
                     None \<Rightarrow> logging DEBUG (Text ''Created new template'') (snd res)
                   | Some e \<Rightarrow>
                       showerror (WithExc ''An error occurred while creating the template: '' e)
                         (logging ERROR (WithExc ''Error creating template: '' e) (snd res))))"

text \<open>\<^verbatim>\<open>TemplaterApp.edit_template\<close>. \<open>selected\<close> is the tuple
  \<^verbatim>\<open>self.template_listbox.curselection()\<close>. The subscript
  \<^verbatim>\<open>self.templates[index]\<close> stands before the \<^verbatim>\<open>try\<close>, so its \<^verbatim>\<open>IndexError\<close> leaves the
  method. The assignment to \<^verbatim>\<open>template.description\<close> changes the object at the position
  addressed; no object stands at two positions of the list.\<close>

definition edit_template :: "int list \<Rightarrow> string option \<Rightarrow> TemplaterApp \<Rightarrow> error option \<times> TemplaterApp" where
  "edit_template selected outcome app =
     (let app1 = logging DEBUG (Text ''Editing template'') app
      in case selected of
           [] \<Rightarrow> (None, app1)
         | index # _ \<Rightarrow>
             (case getitem (templates app1) index of
                Inl e \<Rightarrow> (Some e, app1)
              | Inr pos \<Rightarrow>
                  (case TemplateInputDialog outcome of
                     None \<Rightarrow> (None, app1)
                   | Some result \<Rightarrow>
                       if result = [] then (None, app1)
                       else
                         (let template = templates app1 ! pos;
                              app2 = app1\<lparr>templates :=
                                       (templates app1)[pos := template\<lparr>description := JStr result\<rparr>]\<rparr>;
                              app3 = save_templates app2;
                              res = update_template_list None app3
                          in case fst res of
                               None \<Rightarrow> (None, logging DEBUG (Text ''Edited template'') (snd res))
                             | Some e \<Rightarrow>
                                 (None,
                                  showerror (WithExc ''An error occurred while editing the template: '' e)
                                    (logging ERROR (WithExc ''Error editing template: '' e) (snd res)))))))"


text \<open>A state with nothing in memory, over a given backing file: the starting point of
  the examples below.\<close>

definition fresh :: "stored option \<Rightarrow> TemplaterApp" where
  "fresh f =
     \<lparr>templates = [], templates_json = f, template_listbox = [],
      templater_log = [], messagebox = []\<rparr>"


section \<open>The running program\<close>





section \<open>Basic facts\<close>



lemma strip_examples:
  "strip ''  Hello '' = ''Hello''"
  "strip ''   '' = []"
  "strip [] = []"
  "strip ''x'' = ''x''"
  "strip '' x '' = ''x''"
  "strip ''d'' = ''d''"
  "strip ''a'' = ''a''"
  by code_simp+

lemma getitem_cases:
  "getitem xs index =
     (if 0 \<le> index \<and> index < int (length xs) then Inr (nat index)
      else if - int (length xs) \<le> index \<and> index < 0 then Inr (nat (index + int (length xs)))
      else Inl IndexError)"
  by (simp add: getitem_def Let_def)

lemma getitem_Inr: "getitem xs index = Inr pos \<Longrightarrow> pos < length xs"
  by (auto simp: getitem_def Let_def split: if_splits)

subsection \<open>The codec\<close>

lemma from_dict_to_dict: "from_dict (to_dict t) = Inr t"
  by (simp add: from_dict_def to_dict_def)

lemma from_dict_all_to_dict: "from_dict_all (map to_dict ts) = Inr ts"
  by (induction ts) (simp_all add: from_dict_to_dict)

lemma from_dict_Inr_iff:
  "(from_dict r = Inr t)
     = (\<exists>items. r = JObj items \<and> map_of items ''description'' = Some (description t))"
  by (cases r) (auto simp: from_dict_def split: option.splits)

lemma from_dict_KeyError_iff:
  "(from_dict r = Inl KeyError)
     = (\<exists>items. r = JObj items \<and> map_of items ''description'' = None)"
  by (cases r) (auto simp: from_dict_def split: option.splits)

lemma from_dict_TypeError_iff:
  "(from_dict r = Inl TypeError) = (\<forall>items. r \<noteq> JObj items)"
  by (cases r) (auto simp: from_dict_def split: option.splits)

subsection \<open>What each step leaves of the state\<close>

lemma logging_fields [simp]:
  "templates (logging lv m app) = templates app"
  "templates_json (logging lv m app) = templates_json app"
  "template_listbox (logging lv m app) = template_listbox app"
  "messagebox (logging lv m app) = messagebox app"
  "templater_log (logging lv m app) = templater_log app @ [(lv, m)]"
  by (simp_all add: logging_def)

lemma showerror_fields [simp]:
  "templates (showerror m app) = templates app"
  "templates_json (showerror m app) = templates_json app"
  "template_listbox (showerror m app) = template_listbox app"
  "templater_log (showerror m app) = templater_log app"
  "messagebox (showerror m app) = messagebox app @ [m]"
  by (simp_all add: showerror_def)

lemma save_templates_fields [simp]:
  "templates (save_templates app) = templates app"
  "templates_json (save_templates app) = Some (Json (JArr (map to_dict (templates app))))"
  "template_listbox (save_templates app) = template_listbox app"
  "messagebox (save_templates app) = messagebox app"
  by (simp_all add: save_templates_def Let_def)

lemma update_template_list_fields [simp]:
  "templates (snd (update_template_list query app)) = templates app"
  "templates_json (snd (update_template_list query app)) = templates_json app"
  "messagebox (snd (update_template_list query app)) = messagebox app"
  by (simp_all add: update_template_list_def Let_def split: option.splits)

lemma fresh_fields [simp]:
  "templates (fresh f) = []"
  "templates_json (fresh f) = f"
  "template_listbox (fresh f) = []"
  "templater_log (fresh f) = []"
  "messagebox (fresh f) = []"
  by (simp_all add: fresh_def)

subsection \<open>The listbox loop\<close>





subsection \<open>Creating and editing, field by field\<close>

lemma create_template_rejects:
  "TemplateInputDialog outcome = None \<or> TemplateInputDialog outcome = Some [] \<Longrightarrow>
   create_template outcome app = logging DEBUG (Text ''Creating new template'') app"
  by (auto simp: create_template_def)

lemma create_template_appends:
  "TemplateInputDialog outcome = Some result \<Longrightarrow> result \<noteq> [] \<Longrightarrow>
   templates (create_template outcome app) = templates app @ [\<lparr>description = JStr result\<rparr>]
   \<and> templates_json (create_template outcome app)
        = Some (Json (JArr (map to_dict (templates app @ [\<lparr>description = JStr result\<rparr>]))))"
  by (simp add: create_template_def Let_def split: option.splits)

lemma create_template_extends:
  "take (length (templates app)) (templates (create_template outcome app)) = templates app
   \<and> length (templates (create_template outcome app)) \<le> length (templates app) + 1"
proof (cases "TemplateInputDialog outcome")
  case None
  then show ?thesis by (simp add: create_template_rejects)
next
  case (Some result)
  show ?thesis
  proof (cases "result = []")
    case True
    with Some show ?thesis by (simp add: create_template_rejects)
  next
    case False
    from create_template_appends [OF Some False, of app] show ?thesis by simp
  qed
qed

lemma edit_template_templates:
  "templates (snd (edit_template selected outcome app)) =
     (case selected of
        [] \<Rightarrow> templates app
      | index # _ \<Rightarrow>
          (case getitem (templates app) index of
             Inl e \<Rightarrow> templates app
           | Inr pos \<Rightarrow>
               (case outcome of
                  None \<Rightarrow> templates app
                | Some content \<Rightarrow>
                    if strip content = [] then templates app
                    else (templates app)[pos := (templates app ! pos)\<lparr>description := JStr (strip content)\<rparr>])))"
  by (simp add: edit_template_def Let_def TemplateInputDialog_def dialog_apply_def
        split: list.splits sum.splits option.splits)






subsection \<open>The listbox never has more rows than the collection has templates\<close>





subsection \<open>A started program and its first template\<close>




section \<open>Loading\<close>

text \<open>
  C7. When the backing file does not exist, \<^verbatim>\<open>load_templates\<close> raises nothing and
  leaves the collection empty; the only other change is the log, which receives the
  opening line and a warning.
\<close>

theorem load_templates_missing_file:
  assumes "templates_json app = None"
  shows "load_templates app =
     (None, app\<lparr>templates := [],
                templater_log := templater_log app @
                  [(DEBUG, Text ''Loading templates''),
                   (WARNING, Text ''templates.json not found, starting with empty list'')]\<rparr>)"
  using assms by (simp add: load_templates_def read_templates_def json_load_def logging_def)

theorem load_templates_missing_file_witness:
  "templates_json (fresh None) = None
   \<and> fst (load_templates (fresh None)) = None
   \<and> templates (snd (load_templates (fresh None))) = []"
  using load_templates_missing_file [of "fresh None"] by simp

text \<open>The handled case of a file that holds content: text that is decoded and is not
  JSON. \<^verbatim>\<open>load_templates\<close> raises nothing and leaves the collection empty; the condition
  reaches the log as one line of level ERROR and nothing else.\<close>

lemma load_templates_invalid_json:
  assumes "templates_json app = Some NotJson"
  shows "load_templates app =
     (None, app\<lparr>templates := [],
                templater_log := templater_log app @
                  [(DEBUG, Text ''Loading templates''),
                   (ERROR, Text ''Error decoding templates.json, starting with empty list'')]\<rparr>)"
  using assms by (simp add: load_templates_def read_templates_def json_load_def logging_def)

text \<open>
  C8. The claim is that content which fails to parse as JSON makes \<^verbatim>\<open>load_templates\<close>
  fall back to an empty collection, with the condition logged and nothing raised. The
  handler \<^verbatim>\<open>except json.JSONDecodeError\<close> does so for decoded text that is not JSON
  only. On a file whose bytes do not decode, \<^verbatim>\<open>UnicodeDecodeError\<close> leaves
  \<^verbatim>\<open>load_templates\<close> and the collection stays what it was; nesting beyond the recursion
  limit leaves it with \<^verbatim>\<open>RecursionError\<close>, and an integer literal beyond the digit limit
  with \<^verbatim>\<open>ValueError\<close>.
\<close>

theorem load_templates_undecodable_raises:
  "fst (load_templates (fresh (Some Undecodable))) = Some UnicodeDecodeError
   \<and> templates (snd (load_templates
        ((fresh (Some Undecodable))\<lparr>templates := [\<lparr>description = JStr ''a''\<rparr>]\<rparr>)))
     = [\<lparr>description = JStr ''a''\<rparr>]
   \<and> fst (load_templates (fresh (Some TooDeep))) = Some RecursionError
   \<and> fst (load_templates (fresh (Some TooLong))) = Some ValueError"
  by (simp add: load_templates_def read_templates_def json_load_def)

text \<open>
  C1. The claim is that a file of valid JSON holding a malformed record loads as an
  empty collection with no exception. The code has handlers for a missing file and for
  text that does not parse only: on the file \<^verbatim>\<open>{"not": "an array"}\<close> the loop runs over
  the key \<^verbatim>\<open>"not"\<close>, \<^verbatim>\<open>from_dict\<close> subscripts a str with a str, and the \<^verbatim>\<open>TypeError\<close>
  leaves \<^verbatim>\<open>load_templates\<close>; on an array whose element has no \<^verbatim>\<open>"description"\<close> the
  \<^verbatim>\<open>KeyError\<close> leaves it.
\<close>

theorem load_templates_malformed_record_raises:
  "fst (load_templates (fresh (Some (Json (JObj [(''not'', JStr ''an array'')]))))) = Some TypeError
   \<and> fst (load_templates (fresh (Some (Json (JArr [JObj [(''text'', JStr ''x'')]]))))) = Some KeyError"
  by (simp add: load_templates_def read_templates_def json_load_def from_dict_def)


section \<open>The codec\<close>

text \<open>
  C3, as the claim states it, fails: a record whose \<^verbatim>\<open>"description"\<close> is the number 5
  decodes to a template holding 5, since \<^verbatim>\<open>from_dict\<close> never looks at the type of the
  value.
\<close>

theorem from_dict_number_counterexample:
  "from_dict (JObj [(''description'', JInt 5)]) = Inr \<lparr>description = JInt 5\<rparr>"
  by (simp add: from_dict_def)

text \<open>
  C3, amended. \<^verbatim>\<open>from_dict\<close> returns a template exactly when the record is a dict with
  the key \<^verbatim>\<open>"description"\<close>, and the template holds the value found there, of whatever
  type; it raises \<^verbatim>\<open>KeyError\<close> exactly on a dict without the key, and \<^verbatim>\<open>TypeError\<close>
  exactly on a record that is not a dict.
\<close>

theorem from_dict_outcomes:
  "((from_dict r = Inr t)
      = (\<exists>items. r = JObj items \<and> map_of items ''description'' = Some (description t)))
   \<and> ((from_dict r = Inl KeyError)
      = (\<exists>items. r = JObj items \<and> map_of items ''description'' = None))
   \<and> ((from_dict r = Inl TypeError) = (\<forall>items. r \<noteq> JObj items))"
  by (simp only: from_dict_Inr_iff from_dict_KeyError_iff from_dict_TypeError_iff simp_thms)

theorem from_dict_outcomes_witness:
  "from_dict (JObj [(''description'', JStr ''Hello'')]) = Inr \<lparr>description = JStr ''Hello''\<rparr>
   \<and> from_dict (JObj [(''text'', JStr ''Hello'')]) = Inl KeyError
   \<and> from_dict (JStr ''Hello'') = Inl TypeError
   \<and> from_dict (JArr [JStr ''description'']) = Inl TypeError"
  using from_dict_outcomes [of "JObj [(''description'', JStr ''Hello'')]" "\<lparr>description = JStr ''Hello''\<rparr>"]
        from_dict_outcomes [of "JObj [(''text'', JStr ''Hello'')]"]
        from_dict_outcomes [of "JStr ''Hello''"]
        from_dict_outcomes [of "JArr [JStr ''description'']"]
  by simp


section \<open>Saving and the round trip\<close>

text \<open>
  C4. Decoding the encoding of a template gives the template back, whatever its
  description (so in particular for a non-empty one), and loading the file that
  \<^verbatim>\<open>save_templates\<close> wrote, from any state of the application over that file, raises
  nothing and gives the saved templates, hence their descriptions, in their order.
\<close>

theorem codec_round_trip:
  "from_dict (to_dict t) = Inr t
   \<and> fst (load_templates (other\<lparr>templates_json := templates_json (save_templates app)\<rparr>)) = None
   \<and> templates (snd (load_templates (other\<lparr>templates_json := templates_json (save_templates app)\<rparr>)))
       = templates app
   \<and> map description
       (templates (snd (load_templates (other\<lparr>templates_json := templates_json (save_templates app)\<rparr>))))
       = map description (templates app)"
  by (simp add: from_dict_to_dict load_templates_def read_templates_def json_load_def
        from_dict_all_to_dict Let_def)

text \<open>
  C9. Saving twice in a row leaves the file that saving once leaves: \<^verbatim>\<open>save_templates\<close>
  does not change the collection, and the content it writes is the encoding of the
  collection and depends on nothing else.
\<close>

theorem save_templates_idempotent:
  "templates_json (save_templates (save_templates app)) = templates_json (save_templates app)
   \<and> templates (save_templates app) = templates app
   \<and> templates_json (save_templates app) = Some (Json (JArr (map to_dict (templates app))))"
  by simp


section \<open>Searching\<close>





section \<open>Creating\<close>

text \<open>
  C6. When the stripped text of the dialog is not empty, \<^verbatim>\<open>create_template\<close> appends one
  template holding it at the end of the collection and the file then holds the encoding
  of the new collection; when it is empty, and when the dialog is cancelled, nothing
  changes but the log, which receives the opening line: no template is added and the
  file is not written.
\<close>

theorem create_template_appends_or_rejects:
  "(strip content \<noteq> [] \<longrightarrow>
      templates (create_template (Some content) app)
        = templates app @ [\<lparr>description = JStr (strip content)\<rparr>]
      \<and> templates_json (create_template (Some content) app)
        = Some (Json (JArr (map to_dict (templates (create_template (Some content) app))))))
   \<and> (strip content = [] \<longrightarrow>
      create_template (Some content) app
        = app\<lparr>templater_log := templater_log app @ [(DEBUG, Text ''Creating new template'')]\<rparr>)
   \<and> create_template None app
        = app\<lparr>templater_log := templater_log app @ [(DEBUG, Text ''Creating new template'')]\<rparr>"
proof (intro conjI impI)
  assume ne: "strip content \<noteq> []"
  have d: "TemplateInputDialog (Some content) = Some (strip content)"
    by (simp add: TemplateInputDialog_def dialog_apply_def)
  from create_template_appends [OF d ne, of app]
  show "templates (create_template (Some content) app)
        = templates app @ [\<lparr>description = JStr (strip content)\<rparr>]"
    by simp
  from create_template_appends [OF d ne, of app]
  show "templates_json (create_template (Some content) app)
        = Some (Json (JArr (map to_dict (templates (create_template (Some content) app)))))"
    by simp
next
  assume "strip content = []"
  then have "TemplateInputDialog (Some content) = Some []"
    by (simp add: TemplateInputDialog_def dialog_apply_def)
  then show "create_template (Some content) app
        = app\<lparr>templater_log := templater_log app @ [(DEBUG, Text ''Creating new template'')]\<rparr>"
    by (simp add: create_template_rejects logging_def)
next
  have "TemplateInputDialog None = None"
    by (simp add: TemplateInputDialog_def)
  then show "create_template None app
        = app\<lparr>templater_log := templater_log app @ [(DEBUG, Text ''Creating new template'')]\<rparr>"
    by (simp add: create_template_rejects logging_def)
qed

theorem create_template_appends_or_rejects_witness:
  "strip ''  Hello '' \<noteq> []
   \<and> templates (create_template (Some ''  Hello '') (fresh None)) = [\<lparr>description = JStr ''Hello''\<rparr>]
   \<and> templates_json (create_template (Some ''  Hello '') (fresh None))
       = Some (Json (JArr [JObj [(''description'', JStr ''Hello'')]]))
   \<and> strip ''   '' = []
   \<and> templates (create_template (Some ''   '') (fresh None)) = []
   \<and> templates_json (create_template (Some ''   '') (fresh None)) = None
   \<and> templates (create_template (Some []) (fresh None)) = []"
  using create_template_appends_or_rejects [of "''  Hello ''" "fresh None"]
        create_template_appends_or_rejects [of "''   ''" "fresh None"]
        create_template_appends_or_rejects [of "[]" "fresh None"]
  by (simp add: strip_examples to_dict_def)


section \<open>Editing\<close>



text \<open>
  C10. An edit at an index that addresses the position \<open>pos\<close> keeps the length of the
  collection and every template at another position, so the order of the templates
  too; when the stripped text is not empty, the template at \<open>pos\<close> is the old one with
  the new description. An index from 0 to \<open>N - 1\<close> addresses the position of the same
  number. \<^verbatim>\<open>create_template\<close> keeps the templates it finds, in their positions, and adds
  at most one, after them.
\<close>

theorem edit_and_create_frame:
  "(getitem (templates app) index = Inr pos \<longrightarrow>
      length (templates (snd (edit_template (index # rest) outcome app))) = length (templates app)
      \<and> (\<forall>j. j \<noteq> pos \<longrightarrow>
            templates (snd (edit_template (index # rest) outcome app)) ! j = templates app ! j)
      \<and> (\<forall>content. outcome = Some content \<and> strip content \<noteq> [] \<longrightarrow>
            templates (snd (edit_template (index # rest) outcome app)) ! pos
              = (templates app ! pos)\<lparr>description := JStr (strip content)\<rparr>))
   \<and> (0 \<le> index \<and> index < int (length (templates app)) \<longrightarrow>
        getitem (templates app) index = Inr (nat index))
   \<and> take (length (templates app)) (templates (create_template outcome app)) = templates app
   \<and> length (templates (create_template outcome app)) \<le> length (templates app) + 1"
proof (intro conjI impI allI)
  assume g: "getitem (templates app) index = Inr pos"
  let ?after = "templates (snd (edit_template (index # rest) outcome app))"
  show "length ?after = length (templates app)"
    using g by (simp add: edit_template_templates split: option.splits)
  show "?after ! j = templates app ! j" if "j \<noteq> pos" for j
    using g that by (simp add: edit_template_templates split: option.splits)
  show "?after ! pos = (templates app ! pos)\<lparr>description := JStr (strip content)\<rparr>"
    if "outcome = Some content \<and> strip content \<noteq> []" for content
    using g that getitem_Inr [OF g] by (simp add: edit_template_templates)
next
  assume "0 \<le> index \<and> index < int (length (templates app))"
  then show "getitem (templates app) index = Inr (nat index)"
    by (simp add: getitem_cases)
next
  show "take (length (templates app)) (templates (create_template outcome app)) = templates app"
    using create_template_extends by blast
  show "length (templates (create_template outcome app)) \<le> length (templates app) + 1"
    using create_template_extends by blast
qed

theorem edit_and_create_frame_witness:
  "getitem [\<lparr>description = JStr ''a''\<rparr>, \<lparr>description = JStr ''b''\<rparr>, \<lparr>description = JStr ''c''\<rparr>] 1 = Inr 1
   \<and> templates (snd (edit_template [1] (Some '' x '')
        ((fresh None)\<lparr>templates := [\<lparr>description = JStr ''a''\<rparr>, \<lparr>description = JStr ''b''\<rparr>,
                                    \<lparr>description = JStr ''c''\<rparr>]\<rparr>)))
       = [\<lparr>description = JStr ''a''\<rparr>, \<lparr>description = JStr ''x''\<rparr>, \<lparr>description = JStr ''c''\<rparr>]
   \<and> templates (create_template (Some ''d'')
        ((fresh None)\<lparr>templates := [\<lparr>description = JStr ''a''\<rparr>, \<lparr>description = JStr ''b''\<rparr>,
                                    \<lparr>description = JStr ''c''\<rparr>]\<rparr>))
       = [\<lparr>description = JStr ''a''\<rparr>, \<lparr>description = JStr ''b''\<rparr>, \<lparr>description = JStr ''c''\<rparr>,
          \<lparr>description = JStr ''d''\<rparr>]"
  using edit_and_create_frame [where index = 1 and pos = 1 and rest = "[]" and outcome = "Some '' x ''"
          and app = "(fresh None)\<lparr>templates := [\<lparr>description = JStr ''a''\<rparr>, \<lparr>description = JStr ''b''\<rparr>,
                                    \<lparr>description = JStr ''c''\<rparr>]\<rparr>"]
        create_template_appends [where outcome = "Some ''d''" and result = "''d''"
          and app = "(fresh None)\<lparr>templates := [\<lparr>description = JStr ''a''\<rparr>, \<lparr>description = JStr ''b''\<rparr>,
                                    \<lparr>description = JStr ''c''\<rparr>]\<rparr>"]
  by (simp add: getitem_def edit_template_templates strip_examples TemplateInputDialog_def
        dialog_apply_def)

end
